theory Spec2Isabelle
  imports Main "HOL-Library.AList"
begin

section \<open>SnowParkDataSet: a shallow embedding of \<^verbatim>\<open>snowpark_dataset.py\<close>\<close>

text \<open>
  The class \<^verbatim>\<open>SnowParkDataSet\<close> resolves a database and a schema from its
  arguments and a credentials dictionary, obtains a Snowpark session, and delegates
  \<^verbatim>\<open>_load\<close>, \<^verbatim>\<open>_save\<close> and \<^verbatim>\<open>_exists\<close> to that session.
  The embedding models the methods of the class as they are written. The public
  \<^verbatim>\<open>load\<close>, \<^verbatim>\<open>save\<close> and \<^verbatim>\<open>exists\<close> of
  \<^verbatim>\<open>kedro.io.core.AbstractDataSet\<close> belong to another package and are not modelled;
  neither are the calls to \<^verbatim>\<open>logger.debug\<close>.
\<close>

subsection \<open>Python values and dictionaries\<close>

text \<open>
  The values of \<^verbatim>\<open>Dict[str, Any]\<close>: the kinds a credentials file holds
  (\<^verbatim>\<open>port: 443\<close> next to \<^verbatim>\<open>database: "detailed_data"\<close> in the class docstring).
  Floats and nested containers are left out.
\<close>

datatype pyval = PyNone | PyBool bool | PyInt int | PyStr string

text \<open>Python's truth value (\<^verbatim>\<open>bool(v)\<close>, as tested by \<^verbatim>\<open>not v\<close> and \<^verbatim>\<open>and\<close>).\<close>

fun truthy :: "pyval \<Rightarrow> bool" where
  "truthy PyNone = False"
| "truthy (PyBool b) = b"
| "truthy (PyInt n) = (n \<noteq> 0)"
| "truthy (PyStr s) = (s \<noteq> [])"

text \<open>
  A dictionary keeps its keys in insertion order: an association list.
  \<^verbatim>\<open>d[k] = v\<close> is \<^const>\<open>AList.update\<close>: it replaces the value of a key in place
  and appends a new key at the end.
\<close>

type_synonym pydict = "(string \<times> pyval) list"

text \<open>\<^verbatim>\<open>d.update(e)\<close>: the items of \<open>e\<close> are stored one by one, in the order of \<open>e\<close>.\<close>

definition dict_update :: "pydict \<Rightarrow> pydict \<Rightarrow> pydict" where
  "dict_update d e = fold (\<lambda>(k, x). AList.update k x) e d"

text \<open>\<^verbatim>\<open>str(v)\<close>, which \<^verbatim>\<open>str.format\<close> applies to a field with an empty format
  specification.\<close>

fun str_of_nat :: "nat \<Rightarrow> string" where
  "str_of_nat n =
     (if n < 10 then [char_of (48 + n)]
      else str_of_nat (n div 10) @ [char_of (48 + n mod 10)])"

declare str_of_nat.simps [simp del]

definition str_of_int :: "int \<Rightarrow> string" where
  "str_of_int i = (if i < 0 then CHR ''-'' # str_of_nat (nat (- i)) else str_of_nat (nat i))"

fun py_str :: "pyval \<Rightarrow> string" where
  "py_str PyNone = ''None''"
| "py_str (PyBool b) = (if b then ''True'' else ''False'')"
| "py_str (PyInt n) = str_of_int n"
| "py_str (PyStr s) = s"

text \<open>\<^verbatim>\<open>v == n\<close> for an integer \<open>n\<close>: \<^verbatim>\<open>True == 1\<close> and \<^verbatim>\<open>False == 0\<close> hold in
  Python, a string or \<^verbatim>\<open>None\<close> never equals an integer.\<close>

fun py_eq_int :: "pyval \<Rightarrow> int \<Rightarrow> bool" where
  "py_eq_int PyNone n = False"
| "py_eq_int (PyBool b) n = ((if b then 1 else 0) = n)"
| "py_eq_int (PyInt m) n = (m = n)"
| "py_eq_int (PyStr s) n = False"

subsection \<open>Errors\<close>

datatype error =
    DataSetError string
  | TypeError
  | IndexError
  | SnowparkSessionException
  | VendorError string

text \<open>\<^verbatim>\<open>sep.join(xs)\<close>: every item has to be a \<^verbatim>\<open>str\<close>, else \<^verbatim>\<open>TypeError\<close>.\<close>

fun str_items :: "pyval list \<Rightarrow> error + string list" where
  "str_items [] = Inr []"
| "str_items (PyStr s # xs) = (case str_items xs of Inl e \<Rightarrow> Inl e | Inr ss \<Rightarrow> Inr (s # ss))"
| "str_items (x # xs) = Inl TypeError"

fun intersperse_str :: "string \<Rightarrow> string list \<Rightarrow> string" where
  "intersperse_str sep [] = []"
| "intersperse_str sep [s] = s"
| "intersperse_str sep (s # t # ss) = s @ sep @ intersperse_str sep (t # ss)"

definition join :: "string \<Rightarrow> pyval list \<Rightarrow> error + string" where
  "join sep xs = (case str_items xs of Inl e \<Rightarrow> Inl e | Inr ss \<Rightarrow> Inr (intersperse_str sep ss))"

subsection \<open>The vendor SDK and the world\<close>

text \<open>
  Sessions, Snowpark dataframes (lazy handles) and pandas dataframes are owned by the
  vendor SDK: the class only passes them on, so they are opaque identities here.
\<close>

type_synonym session = nat
type_synonym ref = nat

datatype sp_dataframe = SpDataFrame nat
datatype pd_dataframe = PdDataFrame nat

text \<open>\<^verbatim>\<open>Union[pd.DataFrame, sp.DataFrame]\<close>; \<^verbatim>\<open>isinstance(data, sp.DataFrame)\<close>
  holds of \<open>Native\<close> only.\<close>

datatype data = Native sp_dataframe | Generic pd_dataframe

text \<open>Every call the class makes into the SDK, with its arguments.\<close>

datatype sdk_call =
    GetActiveSession
  | SessionCreate pydict
  | SessionTable session string
  | SessionCreateDataframe session pd_dataframe
  | SaveAsTable sp_dataframe "pyval list" pydict
  | SessionSql session string
  | Collect sp_dataframe

text \<open>
  What the SDK answers is not decided by this code: an arbitrary function of the calls
  made so far and of the arguments, which returns a value or raises (\<open>Inl\<close>).
\<close>

record vendor =
  get_active_session :: "sdk_call list \<Rightarrow> error + session"
  session_create :: "sdk_call list \<Rightarrow> pydict \<Rightarrow> error + session"
  session_table :: "sdk_call list \<Rightarrow> session \<Rightarrow> string \<Rightarrow> error + sp_dataframe"
  session_create_dataframe ::
    "sdk_call list \<Rightarrow> session \<Rightarrow> pd_dataframe \<Rightarrow> error + sp_dataframe"
  save_as_table :: "sdk_call list \<Rightarrow> sp_dataframe \<Rightarrow> pyval list \<Rightarrow> pydict \<Rightarrow> error + unit"
  session_sql :: "sdk_call list \<Rightarrow> session \<Rightarrow> string \<Rightarrow> error + sp_dataframe"
  collect :: "sdk_call list \<Rightarrow> sp_dataframe \<Rightarrow> error + pyval list list"

text \<open>
  The world outside the adapter: the store of dictionary objects (the caller's
  credentials dictionary is passed by reference) and the log of SDK calls.
\<close>

record world =
  heap :: "ref \<Rightarrow> pydict"
  calls :: "sdk_call list"

subsection \<open>The adapter\<close>

record adapter =
  self_load_args :: pydict
  self_save_args :: pydict
  self_table_name :: string
  self_database :: pyval
  self_schema :: pyval
  self_connection_parameters :: ref
  self_session :: session

definition DEFAULT_LOAD_ARGS :: pydict where
  "DEFAULT_LOAD_ARGS = []"

definition DEFAULT_SAVE_ARGS :: pydict where
  "DEFAULT_SAVE_ARGS = []"

text \<open>
  \<^verbatim>\<open>_get_session\<close>: the active session if the SDK has one; a
  \<^verbatim>\<open>SnowparkSessionException\<close> is caught and a session is created from the connection
  parameters; any other exception propagates.
\<close>

definition get_session :: "vendor \<Rightarrow> ref \<Rightarrow> world \<Rightarrow> (error + session) \<times> world" where
  "get_session v connection_parameters w =
     (let w1 = w\<lparr>calls := calls w @ [GetActiveSession]\<rparr> in
      case get_active_session v (calls w) of
        Inr session \<Rightarrow> (Inr session, w1)
      | Inl SnowparkSessionException \<Rightarrow>
          (session_create v (calls w1) (heap w1 connection_parameters),
           w1\<lparr>calls := calls w1 @ [SessionCreate (heap w1 connection_parameters)]\<rparr>)
      | Inl e \<Rightarrow> (Inl e, w1))"

text \<open>
  The block \<^verbatim>\<open>if not database: ...\<close> of \<^verbatim>\<open>__init__\<close>, which the source writes
  twice, for \<open>database\<close> and for \<open>schema\<close>. An argument that is a non-empty string is
  kept. Otherwise (\<^verbatim>\<open>None\<close> or the empty string) the credentials' entry is taken when
  \<^verbatim>\<open>key in credentials and credentials[key]\<close> is true, and a \<^verbatim>\<open>DataSetError\<close> is
  raised when it is not.
\<close>

definition from_credentials :: "string \<Rightarrow> pydict \<Rightarrow> error + pyval" where
  "from_credentials key credentials =
     (case map_of credentials key of
        None \<Rightarrow>
          Inl (DataSetError
                 ([CHR 0x27] @ key @ ''' must be provided by credentials or dataset.''))
      | Some x \<Rightarrow>
          if truthy x then Inr x
          else Inl (DataSetError
                      ([CHR 0x27] @ key @ ''' must be provided by credentials or dataset.'')))"

fun resolve :: "string \<Rightarrow> string option \<Rightarrow> pydict \<Rightarrow> error + pyval" where
  "resolve key None credentials = from_credentials key credentials"
| "resolve key (Some s) credentials =
     (if s = [] then from_credentials key credentials else Inr (PyStr s))"

text \<open>
  \<^verbatim>\<open>__init__\<close>. The arguments \<open>table_name\<close>, \<open>schema\<close> and \<open>database\<close> are strings or
  \<^verbatim>\<open>None\<close>; \<open>load_args\<close> and \<open>save_args\<close> are dictionaries or \<^verbatim>\<open>None\<close>, read only;
  \<open>credentials\<close> is \<^verbatim>\<open>None\<close> or a reference to the caller's dictionary, which
  \<^verbatim>\<open>connection_parameters.update\<close> changes in place before the session is obtained.
\<close>

definition init ::
  "vendor \<Rightarrow> string option \<Rightarrow> string option \<Rightarrow> string option \<Rightarrow> pydict option \<Rightarrow>
   pydict option \<Rightarrow> ref option \<Rightarrow> world \<Rightarrow> (error + adapter) \<times> world" where
  "init v table_name schema database load_args save_args credentials w =
     (case table_name of
        None \<Rightarrow> (Inl (DataSetError '''table_name' argument cannot be empty.''), w)
      | Some tn \<Rightarrow>
     if tn = [] then (Inl (DataSetError '''table_name' argument cannot be empty.''), w)
     else
     (case credentials of
        None \<Rightarrow> (Inl (DataSetError '''credentials' argument cannot be empty.''), w)
      | Some cr \<Rightarrow>
     if heap w cr = [] then (Inl (DataSetError '''credentials' argument cannot be empty.''), w)
     else
     (case resolve ''database'' database (heap w cr) of
        Inl e \<Rightarrow> (Inl e, w)
      | Inr database' \<Rightarrow>
     (case resolve ''schema'' schema (heap w cr) of
        Inl e \<Rightarrow> (Inl e, w)
      | Inr schema' \<Rightarrow>
     let load_args' = (case load_args of None \<Rightarrow> DEFAULT_LOAD_ARGS
                       | Some la \<Rightarrow> dict_update DEFAULT_LOAD_ARGS la);
         save_args' = (case save_args of None \<Rightarrow> DEFAULT_SAVE_ARGS
                       | Some sa \<Rightarrow> dict_update DEFAULT_SAVE_ARGS sa);
         w1 = w\<lparr>heap := fun_upd (heap w) cr (dict_update (heap w cr)
                    [(''database'', database'), (''schema'', schema')])\<rparr>
     in case get_session v cr w1 of
          (Inl e, w2) \<Rightarrow> (Inl e, w2)
        | (Inr session, w2) \<Rightarrow>
            (Inr \<lparr>self_load_args = load_args', self_save_args = save_args',
                  self_table_name = tn, self_database = database', self_schema = schema',
                  self_connection_parameters = cr, self_session = session\<rparr>, w2)))))"

subsection \<open>The methods\<close>

text \<open>
  A method reads and may assign the fields of \<^verbatim>\<open>self\<close>, and acts on the world. It is
  embedded as a function of the adapter and the world that returns the value returned
  (or the exception raised), the adapter as the method leaves it, and the world as the
  method leaves it.
\<close>

text \<open>\<^verbatim>\<open>_describe\<close>: a new dictionary of the three resolved fields.\<close>

definition method_describe :: "adapter \<Rightarrow> pydict \<times> adapter" where
  "method_describe self =
     ([(''table_name'', PyStr (self_table_name self)),
       (''database'', self_database self),
       (''schema'', self_schema self)], self)"

text \<open>\<^verbatim>\<open>_load\<close>: \<^verbatim>\<open>self._session.table(".".join(table_name))\<close>.\<close>

definition method_load ::
  "vendor \<Rightarrow> adapter \<Rightarrow> world \<Rightarrow> (error + sp_dataframe) \<times> adapter \<times> world" where
  "method_load v self w =
     (let table_name = [self_database self, self_schema self, PyStr (self_table_name self)]
      in case join ''.'' table_name of
           Inl e \<Rightarrow> (Inl e, self, w)
         | Inr name \<Rightarrow>
             (session_table v (calls w) (self_session self) name, self,
              w\<lparr>calls := calls w @ [SessionTable (self_session self) name]\<rparr>))"

text \<open>
  \<^verbatim>\<open>_save\<close>: data that is not a Snowpark dataframe goes through
  \<^verbatim>\<open>self._session.create_dataframe\<close>; the list of the three name parts (not joined) and
  the stored save arguments go to \<^verbatim>\<open>save_as_table\<close>.
\<close>

definition method_save ::
  "vendor \<Rightarrow> adapter \<Rightarrow> data \<Rightarrow> world \<Rightarrow> (error + unit) \<times> adapter \<times> world" where
  "method_save v self d w =
     (case (case d of
              Generic p \<Rightarrow>
                (session_create_dataframe v (calls w) (self_session self) p,
                 w\<lparr>calls := calls w @ [SessionCreateDataframe (self_session self) p]\<rparr>)
            | Native df \<Rightarrow> (Inr df, w)) of
        (Inl e, w1) \<Rightarrow> (Inl e, self, w1)
      | (Inr sp_df, w1) \<Rightarrow>
          (let table_name = [self_database self, self_schema self, PyStr (self_table_name self)]
           in (save_as_table v (calls w1) sp_df table_name (self_save_args self), self,
               w1\<lparr>calls := calls w1 @ [SaveAsTable sp_df table_name (self_save_args self)]\<rparr>)))"

text \<open>
  The query of \<^verbatim>\<open>_exists\<close>: the template with \<^verbatim>\<open>{database}\<close>, \<^verbatim>\<open>{schema}\<close> and
  \<^verbatim>\<open>{table_name}\<close> replaced by \<^verbatim>\<open>str\<close> of the fields.
\<close>

definition exists_query :: "adapter \<Rightarrow> string" where
  "exists_query self =
     ''SELECT COUNT('' @ ''*) FROM '' @ py_str (self_database self) @
     ''.INFORMATION_SCHEMA.TABLES WHERE TABLE_SCHEMA = '' @ [CHR 0x27] @
     py_str (self_schema self) @ [CHR 0x27] @ '' AND TABLE_NAME = '' @ [CHR 0x27] @
     self_table_name self @ [CHR 0x27]"

text \<open>
  \<^verbatim>\<open>_exists\<close>: \<^verbatim>\<open>rows[0][0] == 1\<close> on what \<^verbatim>\<open>session.sql(query).collect()\<close>
  returns; indexing an empty list of rows, or an empty row, raises \<^verbatim>\<open>IndexError\<close>.
\<close>

definition method_exists ::
  "vendor \<Rightarrow> adapter \<Rightarrow> world \<Rightarrow> (error + bool) \<times> adapter \<times> world" where
  "method_exists v self w =
     (let session = self_session self;
          query = exists_query self;
          w1 = w\<lparr>calls := calls w @ [SessionSql session query]\<rparr>
      in case session_sql v (calls w) session query of
           Inl e \<Rightarrow> (Inl e, self, w1)
         | Inr df \<Rightarrow>
             (let w2 = w1\<lparr>calls := calls w1 @ [Collect df]\<rparr>
              in case collect v (calls w1) df of
                   Inl e \<Rightarrow> (Inl e, self, w2)
                 | Inr rows \<Rightarrow>
                     (case rows of
                        [] \<Rightarrow> (Inl IndexError, self, w2)
                      | row # _ \<Rightarrow>
                          (case row of
                             [] \<Rightarrow> (Inl IndexError, self, w2)
                           | x # _ \<Rightarrow> (Inr (py_eq_int x 1), self, w2)))))"

text \<open>
  What a method returns and the world it leaves, without the adapter: the view of a
  caller that makes one call.
\<close>

definition describe :: "adapter \<Rightarrow> pydict" where
  "describe self = fst (method_describe self)"

definition load :: "vendor \<Rightarrow> adapter \<Rightarrow> world \<Rightarrow> (error + sp_dataframe) \<times> world" where
  "load v self w = (case method_load v self w of (r, self', w') \<Rightarrow> (r, w'))"

definition save :: "vendor \<Rightarrow> adapter \<Rightarrow> data \<Rightarrow> world \<Rightarrow> (error + unit) \<times> world" where
  "save v self d w = (case method_save v self d w of (r, self', w') \<Rightarrow> (r, w'))"

definition exists :: "vendor \<Rightarrow> adapter \<Rightarrow> world \<Rightarrow> (error + bool) \<times> world" where
  "exists v self w = (case method_exists v self w of (r, self', w') \<Rightarrow> (r, w'))"

subsection \<open>Sequences of operations\<close>

text \<open>
  The four operations of the adapter, called one after the other on the same object:
  each call starts from the adapter and the world the call before it left. A caller
  may go on after an operation has raised.
\<close>

datatype operation = Load | Save data | Exists | Describe

datatype outcome =
    Loaded "error + sp_dataframe"
  | Saved "error + unit"
  | Existence "error + bool"
  | Description pydict

fun step :: "vendor \<Rightarrow> operation \<Rightarrow> adapter \<times> world \<Rightarrow> outcome \<times> adapter \<times> world" where
  "step v Load (self, w) =
     (case method_load v self w of (r, self', w') \<Rightarrow> (Loaded r, self', w'))"
| "step v (Save d) (self, w) =
     (case method_save v self d w of (r, self', w') \<Rightarrow> (Saved r, self', w'))"
| "step v Exists (self, w) =
     (case method_exists v self w of (r, self', w') \<Rightarrow> (Existence r, self', w'))"
| "step v Describe (self, w) =
     (case method_describe self of (d, self') \<Rightarrow> (Description d, self', w))"

fun run :: "vendor \<Rightarrow> operation list \<Rightarrow> adapter \<times> world \<Rightarrow> outcome list \<times> adapter \<times> world" where
  "run v [] s = ([], s)"
| "run v (x # xs) s =
     (case step v x s of (r, s') \<Rightarrow> (case run v xs s' of (rs, s'') \<Rightarrow> (r # rs, s'')))"

subsection \<open>A concrete SDK and world\<close>

text \<open>
  An SDK with no active session, whose calls all succeed, and a world that holds the
  credentials of the class docstring's example at reference 0. They serve as the
  concrete inputs of the instances below.
\<close>

definition demo_vendor :: vendor where
  "demo_vendor =
     \<lparr>get_active_session = (\<lambda>cs. Inl SnowparkSessionException),
      session_create = (\<lambda>cs p. Inr 7),
      session_table = (\<lambda>cs s n. Inr (SpDataFrame 1)),
      session_create_dataframe = (\<lambda>cs s p. Inr (SpDataFrame 2)),
      save_as_table = (\<lambda>cs df t args. Inr ()),
      session_sql = (\<lambda>cs s q. Inr (SpDataFrame 3)),
      collect = (\<lambda>cs df. Inr [[PyInt 1]])\<rparr>"

definition weather_credentials :: pydict where
  "weather_credentials =
     [(''account'', PyStr ''a''), (''user'', PyStr ''u''), (''password'', PyStr ''p''),
      (''database'', PyStr ''meteorology''), (''schema'', PyStr ''observations'')]"

definition demo_world :: world where
  "demo_world = \<lparr>heap = (\<lambda>r. if r = 0 then weather_credentials else []), calls = []\<rparr>"

text \<open>
  The adapters these inputs construct, and the worlds after construction: the class
  docstring's \<open>weather\<close> entry (database and schema from the credentials), its
  \<open>polygons\<close> entry (the schema given as an argument, the database from the
  credentials), and an entry whose credentials hold a number under
  \<^verbatim>\<open>database\<close>. \<open>empty_vendor\<close> answers every \<^verbatim>\<open>collect\<close> with no rows;
  \<open>active_vendor\<close> has an active session, which \<^verbatim>\<open>_get_session\<close> reuses.
\<close>

definition weather_adapter :: adapter where
  "weather_adapter =
     \<lparr>self_load_args = [], self_save_args = [],
      self_table_name = ''weather_data'', self_database = PyStr ''meteorology'',
      self_schema = PyStr ''observations'', self_connection_parameters = 0, self_session = 7\<rparr>"

definition weather_world :: world where
  "weather_world =
     \<lparr>heap = fun_upd (heap demo_world) 0 weather_credentials,
      calls = [GetActiveSession, SessionCreate weather_credentials]\<rparr>"

definition polygons_adapter :: adapter where
  "polygons_adapter =
     \<lparr>self_load_args = [], self_save_args = [(''mode'', PyStr ''overwrite'')],
      self_table_name = ''geopolygons'', self_database = PyStr ''meteorology'',
      self_schema = PyStr ''geodata'', self_connection_parameters = 0, self_session = 7\<rparr>"

definition polygons_world :: world where
  "polygons_world =
     \<lparr>heap = fun_upd (heap demo_world) 0
        [(''account'', PyStr ''a''), (''user'', PyStr ''u''), (''password'', PyStr ''p''),
         (''database'', PyStr ''meteorology''), (''schema'', PyStr ''geodata'')],
      calls = [GetActiveSession, SessionCreate
        [(''account'', PyStr ''a''), (''user'', PyStr ''u''), (''password'', PyStr ''p''),
         (''database'', PyStr ''meteorology''), (''schema'', PyStr ''geodata'')]]\<rparr>"

definition numeric_credentials :: pydict where
  "numeric_credentials =
     [(''account'', PyStr ''a''), (''user'', PyStr ''u''), (''password'', PyStr ''p''),
      (''database'', PyInt 2023), (''schema'', PyStr ''observations'')]"

definition numeric_world :: world where
  "numeric_world = \<lparr>heap = (\<lambda>r. numeric_credentials), calls = []\<rparr>"

definition numeric_adapter :: adapter where
  "numeric_adapter =
     \<lparr>self_load_args = [], self_save_args = [],
      self_table_name = ''weather_data'', self_database = PyInt 2023,
      self_schema = PyStr ''observations'', self_connection_parameters = 0, self_session = 7\<rparr>"

definition empty_vendor :: vendor where
  "empty_vendor = demo_vendor\<lparr>collect := (\<lambda>cs df. Inr [])\<rparr>"

definition active_vendor :: vendor where
  "active_vendor = demo_vendor\<lparr>get_active_session := (\<lambda>cs. Inr 7)\<rparr>"

section \<open>Properties\<close>

subsection \<open>Auxiliary facts about the constructor\<close>

lemma get_session_heap: "get_session v cr w = (r, w') \<Longrightarrow> heap w' = heap w"
  by (auto simp: get_session_def Let_def split: sum.splits error.splits)

lemma init_Inr:
  assumes "init v table_name schema database load_args save_args credentials w = (Inr a, w')"
  obtains tn cr s where
    "table_name = Some tn" "tn \<noteq> []" "credentials = Some cr" "heap w cr \<noteq> []"
    "resolve ''database'' database (heap w cr) = Inr (self_database a)"
    "resolve ''schema'' schema (heap w cr) = Inr (self_schema a)"
    "get_session v cr (w\<lparr>heap := fun_upd (heap w) cr (dict_update (heap w cr)
        [(''database'', self_database a), (''schema'', self_schema a)])\<rparr>) = (Inr s, w')"
    "a = \<lparr>self_load_args = (case load_args of None \<Rightarrow> DEFAULT_LOAD_ARGS
                               | Some la \<Rightarrow> dict_update DEFAULT_LOAD_ARGS la),
          self_save_args = (case save_args of None \<Rightarrow> DEFAULT_SAVE_ARGS
                               | Some sa \<Rightarrow> dict_update DEFAULT_SAVE_ARGS sa),
          self_table_name = tn, self_database = self_database a, self_schema = self_schema a,
          self_connection_parameters = cr, self_session = s\<rparr>"
  using assms unfolding init_def Let_def
  by (auto split: option.splits if_splits sum.splits prod.splits)

lemma from_credentials_Inl:
  "(\<forall>x. map_of d key = Some x \<longrightarrow> \<not> truthy x) \<Longrightarrow>
   \<exists>msg. from_credentials key d = Inl (DataSetError msg)"
  by (auto simp: from_credentials_def split: option.splits)

lemma from_credentials_Inr:
  "from_credentials key d = Inr x \<Longrightarrow> map_of d key = Some x \<and> truthy x"
  by (auto simp: from_credentials_def split: option.splits if_splits)

lemma resolve_error:
  "resolve key arg d = Inl e \<Longrightarrow> \<exists>msg. e = DataSetError msg"
  by (cases arg) (auto simp: from_credentials_def split: option.splits if_splits)

lemma resolve_Some: "s \<noteq> [] \<Longrightarrow> resolve key (Some s) d = Inr x \<Longrightarrow> x = PyStr s"
  by simp

lemma resolve_absent:
  "arg = None \<or> arg = Some [] \<Longrightarrow> resolve key arg d = Inr x \<Longrightarrow> map_of d key = Some x"
  by (auto dest: from_credentials_Inr)

lemma init_fields:
  assumes "init v table_name schema database load_args save_args credentials w = (Inr a, w')"
  shows "\<exists>cr. credentials = Some cr
       \<and> Some (self_table_name a) = table_name
       \<and> resolve ''database'' database (heap w cr) = Inr (self_database a)
       \<and> resolve ''schema'' schema (heap w cr) = Inr (self_schema a)
       \<and> get_session v cr (w\<lparr>heap := fun_upd (heap w) cr (dict_update (heap w cr)
            [(''database'', self_database a), (''schema'', self_schema a)])\<rparr>)
           = (Inr (self_session a), w')"
proof -
  from assms obtain tn cr s where tn: "table_name = Some tn" and cr: "credentials = Some cr"
    and db: "resolve ''database'' database (heap w cr) = Inr (self_database a)"
    and sc: "resolve ''schema'' schema (heap w cr) = Inr (self_schema a)"
    and gs: "get_session v cr (w\<lparr>heap := fun_upd (heap w) cr (dict_update (heap w cr)
        [(''database'', self_database a), (''schema'', self_schema a)])\<rparr>) = (Inr s, w')"
    and a: "a = \<lparr>self_load_args = (case load_args of None \<Rightarrow> DEFAULT_LOAD_ARGS
                               | Some la \<Rightarrow> dict_update DEFAULT_LOAD_ARGS la),
          self_save_args = (case save_args of None \<Rightarrow> DEFAULT_SAVE_ARGS
                               | Some sa \<Rightarrow> dict_update DEFAULT_SAVE_ARGS sa),
          self_table_name = tn, self_database = self_database a, self_schema = self_schema a,
          self_connection_parameters = cr, self_session = s\<rparr>"
    by (rule init_Inr)
  from a have "self_table_name a = tn" by (metis adapter.select_convs(3))
  moreover from a have "self_session a = s" by (metis adapter.select_convs(7))
  ultimately show ?thesis using tn cr db sc gs by simp
qed

lemma init_save_args:
  assumes "init v table_name schema database load_args save_args credentials w = (Inr a, w')"
  shows "self_save_args a = (case save_args of None \<Rightarrow> DEFAULT_SAVE_ARGS
                             | Some sa \<Rightarrow> dict_update DEFAULT_SAVE_ARGS sa)"
proof -
  from assms obtain tn cr s where
    "a = \<lparr>self_load_args = (case load_args of None \<Rightarrow> DEFAULT_LOAD_ARGS
                               | Some la \<Rightarrow> dict_update DEFAULT_LOAD_ARGS la),
          self_save_args = (case save_args of None \<Rightarrow> DEFAULT_SAVE_ARGS
                               | Some sa \<Rightarrow> dict_update DEFAULT_SAVE_ARGS sa),
          self_table_name = tn, self_database = self_database a, self_schema = self_schema a,
          self_connection_parameters = cr, self_session = s\<rparr>"
    by (rule init_Inr)
  then have "self_save_args a = self_save_args
        \<lparr>self_load_args = (case load_args of None \<Rightarrow> DEFAULT_LOAD_ARGS
                               | Some la \<Rightarrow> dict_update DEFAULT_LOAD_ARGS la),
          self_save_args = (case save_args of None \<Rightarrow> DEFAULT_SAVE_ARGS
                               | Some sa \<Rightarrow> dict_update DEFAULT_SAVE_ARGS sa),
          self_table_name = tn, self_database = self_database a, self_schema = self_schema a,
          self_connection_parameters = cr, self_session = s\<rparr>" by simp
  then show ?thesis by simp
qed

subsection \<open>The methods as seen by one call\<close>

text \<open>
  The equations of \<open>describe\<close>, \<open>load\<close>, \<open>save\<close> and \<open>exists\<close>, unfolded from the
  methods, and what each method does to the adapter.
\<close>

lemma describe_eq:
  "describe self =
     [(''table_name'', PyStr (self_table_name self)),
      (''database'', self_database self),
      (''schema'', self_schema self)]"
  by (simp add: describe_def method_describe_def)

lemma load_eq:
  "load v self w =
     (let table_name = [self_database self, self_schema self, PyStr (self_table_name self)]
      in case join ''.'' table_name of
           Inl e \<Rightarrow> (Inl e, w)
         | Inr name \<Rightarrow>
             (session_table v (calls w) (self_session self) name,
              w\<lparr>calls := calls w @ [SessionTable (self_session self) name]\<rparr>))"
  by (simp add: load_def method_load_def Let_def split: sum.splits)

lemma save_eq:
  "save v self d w =
     (case (case d of
              Generic p \<Rightarrow>
                (session_create_dataframe v (calls w) (self_session self) p,
                 w\<lparr>calls := calls w @ [SessionCreateDataframe (self_session self) p]\<rparr>)
            | Native df \<Rightarrow> (Inr df, w)) of
        (Inl e, w1) \<Rightarrow> (Inl e, w1)
      | (Inr sp_df, w1) \<Rightarrow>
          (let table_name = [self_database self, self_schema self, PyStr (self_table_name self)]
           in (save_as_table v (calls w1) sp_df table_name (self_save_args self),
               w1\<lparr>calls := calls w1 @ [SaveAsTable sp_df table_name (self_save_args self)]\<rparr>)))"
  by (simp add: save_def method_save_def Let_def split: data.splits sum.splits)

lemma exists_eq:
  "exists v self w =
     (let session = self_session self;
          query = exists_query self;
          w1 = w\<lparr>calls := calls w @ [SessionSql session query]\<rparr>
      in case session_sql v (calls w) session query of
           Inl e \<Rightarrow> (Inl e, w1)
         | Inr df \<Rightarrow>
             (let w2 = w1\<lparr>calls := calls w1 @ [Collect df]\<rparr>
              in case collect v (calls w1) df of
                   Inl e \<Rightarrow> (Inl e, w2)
                 | Inr rows \<Rightarrow>
                     (case rows of
                        [] \<Rightarrow> (Inl IndexError, w2)
                      | row # _ \<Rightarrow>
                          (case row of
                             [] \<Rightarrow> (Inl IndexError, w2)
                           | x # _ \<Rightarrow> (Inr (py_eq_int x 1), w2)))))"
  by (simp add: exists_def method_exists_def Let_def split: sum.splits list.splits)

lemma method_describe_self: "method_describe a = (d, a') \<Longrightarrow> a' = a"
  by (auto simp: method_describe_def)

lemma method_load_self: "method_load v a w = (r, a', w') \<Longrightarrow> a' = a"
  by (auto simp: method_load_def Let_def split: sum.splits)

lemma method_save_self: "method_save v a d w = (r, a', w') \<Longrightarrow> a' = a"
  by (auto simp: method_save_def Let_def split: data.splits sum.splits prod.splits)

lemma method_exists_self: "method_exists v a w = (r, a', w') \<Longrightarrow> a' = a"
  by (auto simp: method_exists_def Let_def split: sum.splits list.splits)

lemma step_adapter:
  assumes "step v x (a, w) = (r, a', w')"
  shows "a' = a"
proof (cases x)
  case Load
  with assms show ?thesis
    by (auto split: prod.splits dest: method_load_self)
next
  case (Save d)
  with assms show ?thesis
    by (auto split: prod.splits dest: method_save_self)
next
  case Exists
  with assms show ?thesis
    by (auto split: prod.splits dest: method_exists_self)
next
  case Describe
  with assms show ?thesis
    by (auto split: prod.splits dest: method_describe_self)
qed

subsection \<open>Auxiliary facts about dictionaries, names and operations\<close>

lemma update_fresh: "k \<notin> fst ` set d \<Longrightarrow> AList.update k x d = d @ [(k, x)]"
  by (induction d) auto

lemma fold_update_distinct:
  "distinct (map fst (d @ e)) \<Longrightarrow> fold (\<lambda>(k, x). AList.update k x) e d = d @ e"
proof (induction e arbitrary: d)
  case Nil
  then show ?case by simp
next
  case (Cons p e)
  obtain k x where p: "p = (k, x)" by (cases p)
  from Cons.prems p have fresh: "k \<notin> fst ` set d" by auto
  from Cons.prems p have "distinct (map fst ((d @ [(k, x)]) @ e))" by auto
  then have "fold (\<lambda>(k, x). AList.update k x) e (d @ [(k, x)]) = (d @ [(k, x)]) @ e"
    by (rule Cons.IH)
  with fresh p show ?case by (simp add: update_fresh)
qed

lemma dict_update_empty: "distinct (map fst e) \<Longrightarrow> dict_update [] e = e"
  using fold_update_distinct [of "[]" e] by (simp add: dict_update_def)

lemma map_of_dict_update_two:
  "map_of (dict_update d [(k1, x1), (k2, x2)]) = ((map_of d)(k1 \<mapsto> x1))(k2 \<mapsto> x2)"
  by (simp add: dict_update_def update_conv')

lemma join_three:
  "join sep [PyStr d, PyStr s, PyStr t] = Inr (d @ sep @ s @ sep @ t)"
  by (simp add: join_def)

lemma load_fields:
  "self_database a1 = self_database a2 \<Longrightarrow> self_schema a1 = self_schema a2 \<Longrightarrow>
   self_table_name a1 = self_table_name a2 \<Longrightarrow> self_session a1 = self_session a2 \<Longrightarrow>
   load v a1 w = load v a2 w"
  by (simp add: load_eq split: sum.splits)

subsection \<open>The concrete constructions, evaluated\<close>

lemma init_weather:
  "init demo_vendor (Some ''weather_data'') None None None None (Some 0) demo_world
   = (Inr weather_adapter, weather_world)"
  by (simp add: init_def from_credentials_def demo_world_def weather_credentials_def
      dict_update_def DEFAULT_LOAD_ARGS_def DEFAULT_SAVE_ARGS_def get_session_def
      demo_vendor_def weather_adapter_def weather_world_def Let_def)

lemma init_weather_load_args:
  "init demo_vendor (Some ''weather_data'') None None (Some [(''limit'', PyInt 10)]) None
     (Some 0) demo_world
   = (Inr (weather_adapter\<lparr>self_load_args := [(''limit'', PyInt 10)]\<rparr>), weather_world)"
  by (simp add: init_def from_credentials_def demo_world_def weather_credentials_def
      dict_update_def DEFAULT_LOAD_ARGS_def DEFAULT_SAVE_ARGS_def get_session_def
      demo_vendor_def weather_adapter_def weather_world_def Let_def)

lemma init_polygons:
  "init demo_vendor (Some ''geopolygons'') (Some ''geodata'') None None
     (Some [(''mode'', PyStr ''overwrite'')]) (Some 0) demo_world
   = (Inr polygons_adapter, polygons_world)"
  by (simp add: init_def from_credentials_def demo_world_def weather_credentials_def
      dict_update_def DEFAULT_LOAD_ARGS_def DEFAULT_SAVE_ARGS_def get_session_def
      demo_vendor_def polygons_adapter_def polygons_world_def Let_def)

lemma exists_query_polygons:
  "exists_query polygons_adapter =
     ''SELECT COUNT('' @ ''*) FROM meteorology.INFORMATION_SCHEMA.TABLES WHERE TABLE_SCHEMA = ''
     @ [CHR 0x27] @ ''geodata'' @ [CHR 0x27] @ '' AND TABLE_NAME = '' @ [CHR 0x27]
     @ ''geopolygons'' @ [CHR 0x27]"
  by (simp add: exists_query_def polygons_adapter_def)

subsection \<open>Construction\<close>

text \<open>
  C1. A construction whose \<open>table_name\<close> is missing or empty, whose credentials are
  missing or an empty dictionary, or where neither the argument nor the credentials give
  a non-empty database (or schema), raises a \<^verbatim>\<open>DataSetError\<close>; the world it returns
  is the world it was given, so no call to the SDK has been made and no session has been
  acquired or created.
\<close>

theorem init_configuration_error:
  assumes "table_name = None \<or> table_name = Some []
         \<or> credentials = None \<or> (\<exists>cr. credentials = Some cr \<and> heap w cr = [])
         \<or> (\<exists>cr. credentials = Some cr \<and> (database = None \<or> database = Some [])
               \<and> (\<forall>x. map_of (heap w cr) ''database'' = Some x \<longrightarrow> \<not> truthy x))
         \<or> (\<exists>cr. credentials = Some cr \<and> (schema = None \<or> schema = Some [])
               \<and> (\<forall>x. map_of (heap w cr) ''schema'' = Some x \<longrightarrow> \<not> truthy x))"
  shows "\<exists>msg. init v table_name schema database load_args save_args credentials w
               = (Inl (DataSetError msg), w)"
proof (cases table_name)
  case None
  then show ?thesis by (simp add: init_def)
next
  case tn: (Some t)
  show ?thesis
  proof (cases "t = []")
    case True
    with tn show ?thesis by (simp add: init_def)
  next
    case t: False
    show ?thesis
    proof (cases credentials)
      case None
      with tn t show ?thesis by (simp add: init_def)
    next
      case cr: (Some c)
      show ?thesis
      proof (cases "heap w c = []")
        case True
        with tn t cr show ?thesis by (simp add: init_def)
      next
        case h: False
        show ?thesis
        proof (cases "resolve ''database'' database (heap w c)")
          case (Inl e)
          then obtain msg where "e = DataSetError msg" using resolve_error by blast
          with Inl tn t cr h show ?thesis by (simp add: init_def)
        next
          case db: (Inr d)
          have nodb: "\<not> ((database = None \<or> database = Some [])
               \<and> (\<forall>x. map_of (heap w c) ''database'' = Some x \<longrightarrow> \<not> truthy x))"
          proof
            assume a: "(database = None \<or> database = Some [])
               \<and> (\<forall>x. map_of (heap w c) ''database'' = Some x \<longrightarrow> \<not> truthy x)"
            then have "resolve ''database'' database (heap w c)
                         = from_credentials ''database'' (heap w c)" by auto
            with db from_credentials_Inr a show False by metis
          qed
          with assms tn t cr h
          have sc: "(schema = None \<or> schema = Some [])
               \<and> (\<forall>x. map_of (heap w c) ''schema'' = Some x \<longrightarrow> \<not> truthy x)" by auto
          then have "resolve ''schema'' schema (heap w c)
                         = from_credentials ''schema'' (heap w c)" by auto
          with sc from_credentials_Inl [of "heap w c" "''schema''"]
          obtain msg where "resolve ''schema'' schema (heap w c) = Inl (DataSetError msg)"
            by auto
          with tn t cr h db show ?thesis by (simp add: init_def)
        qed
      qed
    qed
  qed
qed

theorem init_configuration_error_witness:
  "\<exists>msg. init demo_vendor (Some ''weather_data'') None None None None
            (Some 0) (demo_world\<lparr>heap := (\<lambda>r. [(''account'', PyStr ''a'')])\<rparr>)
          = (Inl (DataSetError msg), demo_world\<lparr>heap := (\<lambda>r. [(''account'', PyStr ''a'')])\<rparr>)"
  using init_configuration_error [of "Some ''weather_data''" "Some 0"
          "demo_world\<lparr>heap := (\<lambda>r. [(''account'', PyStr ''a'')])\<rparr>" None None
          demo_vendor None None]
  by simp

text \<open>
  C2. After a successful construction the resolved database (schema) is the argument
  when the argument is given, that is, a non-empty string; when the argument is absent
  (\<^verbatim>\<open>None\<close> or the empty string, which the constructor treats alike) it is the
  entry of the credentials dictionary under \<^verbatim>\<open>database\<close> (\<^verbatim>\<open>schema\<close>). A given
  argument wins whatever the credentials hold.
\<close>

theorem init_resolves_database_and_schema:
  assumes "init v table_name schema database load_args save_args credentials w = (Inr a, w')"
  shows "(\<forall>d. database = Some d \<and> d \<noteq> [] \<longrightarrow> self_database a = PyStr d)
       \<and> (\<forall>s. schema = Some s \<and> s \<noteq> [] \<longrightarrow> self_schema a = PyStr s)
       \<and> (database = None \<or> database = Some [] \<longrightarrow>
            (\<exists>cr. credentials = Some cr
                 \<and> map_of (heap w cr) ''database'' = Some (self_database a)))
       \<and> (schema = None \<or> schema = Some [] \<longrightarrow>
            (\<exists>cr. credentials = Some cr
                 \<and> map_of (heap w cr) ''schema'' = Some (self_schema a)))"
proof -
  from assms obtain tn cr s where cr: "credentials = Some cr"
    and db: "resolve ''database'' database (heap w cr) = Inr (self_database a)"
    and sc: "resolve ''schema'' schema (heap w cr) = Inr (self_schema a)"
    by (rule init_Inr)
  from db have 1: "\<forall>d. database = Some d \<and> d \<noteq> [] \<longrightarrow> self_database a = PyStr d"
    by (auto dest: resolve_Some)
  from sc have 2: "\<forall>s. schema = Some s \<and> s \<noteq> [] \<longrightarrow> self_schema a = PyStr s"
    by (auto dest: resolve_Some)
  from db cr have 3: "database = None \<or> database = Some [] \<longrightarrow>
      (\<exists>cr. credentials = Some cr \<and> map_of (heap w cr) ''database'' = Some (self_database a))"
    using resolve_absent by blast
  from sc cr have 4: "schema = None \<or> schema = Some [] \<longrightarrow>
      (\<exists>cr. credentials = Some cr \<and> map_of (heap w cr) ''schema'' = Some (self_schema a))"
    using resolve_absent by blast
  from 1 2 3 4 show ?thesis by blast
qed

theorem init_resolves_database_and_schema_witness:
  "self_schema polygons_adapter = PyStr ''geodata''
   \<and> map_of (heap demo_world 0) ''database'' = Some (self_database polygons_adapter)"
  using init_resolves_database_and_schema [OF init_polygons]
  by simp

text \<open>
  C6. A successful construction changes the caller's credentials dictionary in place:
  the adapter's connection parameters are the very reference it was given, and the
  dictionary at that reference is the old one updated with the resolved database and
  schema. Its other keys, and all other dictionaries, are as before.
\<close>

theorem init_mutates_credentials:
  assumes "init v table_name schema database load_args save_args credentials w = (Inr a, w')"
  shows "credentials = Some (self_connection_parameters a)
       \<and> heap w' (self_connection_parameters a)
           = dict_update (heap w (self_connection_parameters a))
               [(''database'', self_database a), (''schema'', self_schema a)]
       \<and> map_of (heap w' (self_connection_parameters a)) ''database'' = Some (self_database a)
       \<and> map_of (heap w' (self_connection_parameters a)) ''schema'' = Some (self_schema a)
       \<and> (\<forall>k. k \<noteq> ''database'' \<and> k \<noteq> ''schema'' \<longrightarrow>
            map_of (heap w' (self_connection_parameters a)) k
              = map_of (heap w (self_connection_parameters a)) k)
       \<and> (\<forall>r. r \<noteq> self_connection_parameters a \<longrightarrow> heap w' r = heap w r)"
proof -
  from assms obtain tn cr s where cr: "credentials = Some cr"
    and gs: "get_session v cr (w\<lparr>heap := fun_upd (heap w) cr (dict_update (heap w cr)
        [(''database'', self_database a), (''schema'', self_schema a)])\<rparr>) = (Inr s, w')"
    and a: "a = \<lparr>self_load_args = (case load_args of None \<Rightarrow> DEFAULT_LOAD_ARGS
                               | Some la \<Rightarrow> dict_update DEFAULT_LOAD_ARGS la),
          self_save_args = (case save_args of None \<Rightarrow> DEFAULT_SAVE_ARGS
                               | Some sa \<Rightarrow> dict_update DEFAULT_SAVE_ARGS sa),
          self_table_name = tn, self_database = self_database a, self_schema = self_schema a,
          self_connection_parameters = cr, self_session = s\<rparr>"
    by (rule init_Inr)
  from a have p: "self_connection_parameters a = cr"
    by (metis adapter.select_convs(6))
  from gs have h: "heap w' = fun_upd (heap w) cr (dict_update (heap w cr)
        [(''database'', self_database a), (''schema'', self_schema a)])"
    by (simp add: get_session_heap)
  from cr p have 1: "credentials = Some (self_connection_parameters a)" by simp
  from h p have 2: "heap w' (self_connection_parameters a)
           = dict_update (heap w (self_connection_parameters a))
               [(''database'', self_database a), (''schema'', self_schema a)]" by simp
  from 2 have 3: "map_of (heap w' (self_connection_parameters a)) ''database''
                    = Some (self_database a)"
    by (simp add: map_of_dict_update_two)
  from 2 have 4: "map_of (heap w' (self_connection_parameters a)) ''schema''
                    = Some (self_schema a)"
    by (simp add: map_of_dict_update_two)
  from 2 have 5: "\<forall>k. k \<noteq> ''database'' \<and> k \<noteq> ''schema'' \<longrightarrow>
            map_of (heap w' (self_connection_parameters a)) k
              = map_of (heap w (self_connection_parameters a)) k"
    by (simp add: map_of_dict_update_two)
  from h p have 6: "\<forall>r. r \<noteq> self_connection_parameters a \<longrightarrow> heap w' r = heap w r" by simp
  from 1 2 3 4 5 6 show ?thesis by blast
qed

theorem init_mutates_credentials_witness:
  "heap polygons_world 0 =
     [(''account'', PyStr ''a''), (''user'', PyStr ''u''), (''password'', PyStr ''p''),
      (''database'', PyStr ''meteorology''), (''schema'', PyStr ''geodata'')]
   \<and> map_of (heap demo_world 0) ''schema'' = Some (PyStr ''observations'')
   \<and> map_of (heap polygons_world 0) ''schema'' = Some (PyStr ''geodata'')"
  using init_mutates_credentials [OF init_polygons]
  by (simp add: polygons_adapter_def demo_world_def weather_credentials_def dict_update_def)

subsection \<open>Load\<close>

text \<open>
  C5, as amended. For a constructed adapter whose resolved database and schema are
  strings, \<^verbatim>\<open>_load\<close> returns what \<^verbatim>\<open>session.table\<close> returns for the name
  \<open>database.schema.table_name\<close>, and makes that one call. The instance is the
  example of the specification: \<^verbatim>\<open>meteorology.observations.weather_data\<close>.
\<close>

theorem load_qualified_name:
  assumes "init v table_name schema database load_args save_args credentials w0 = (Inr a, w1)"
    and "self_database a = PyStr d" and "self_schema a = PyStr s"
  shows "load v a w =
           (session_table v (calls w) (self_session a) (d @ ''.'' @ s @ ''.'' @ self_table_name a),
            w\<lparr>calls := calls w @
              [SessionTable (self_session a) (d @ ''.'' @ s @ ''.'' @ self_table_name a)]\<rparr>)"
  using assms(2,3) by (simp add: load_eq Let_def join_three)

theorem load_qualified_name_witness:
  "load demo_vendor weather_adapter weather_world =
     (Inr (SpDataFrame 1),
      weather_world\<lparr>calls := calls weather_world @
         [SessionTable 7 ''meteorology.observations.weather_data'']\<rparr>)"
  using load_qualified_name [OF init_weather, of "''meteorology''" "''observations''"
          weather_world]
  by (simp add: weather_adapter_def demo_vendor_def)

text \<open>
  C5, as stated, fails. The credentials are a \<^verbatim>\<open>Dict[str, Any]\<close>, and the constructor
  accepts any entry that is true: with \<^verbatim>\<open>database: 2023\<close> in the credentials (and an
  active session to reuse) the construction succeeds, and \<^verbatim>\<open>".".join\<close> then raises
  a \<^verbatim>\<open>TypeError\<close> before any call to the session.
\<close>

theorem load_type_error_counterexample:
  "fst (init active_vendor (Some ''weather_data'') None None None None (Some 0) numeric_world)
     = Inr numeric_adapter
   \<and> load active_vendor numeric_adapter
       (snd (init active_vendor (Some ''weather_data'') None None None None (Some 0)
               numeric_world))
     = (Inl TypeError,
        snd (init active_vendor (Some ''weather_data'') None None None None (Some 0)
               numeric_world))"
  by (simp add: init_def from_credentials_def numeric_world_def numeric_credentials_def
      dict_update_def DEFAULT_LOAD_ARGS_def DEFAULT_SAVE_ARGS_def get_session_def
      active_vendor_def demo_vendor_def numeric_adapter_def Let_def load_eq join_def)

text \<open>
  C8. Two adapters constructed from the same arguments except \<open>load_args\<close> come with
  the same world, and \<^verbatim>\<open>_load\<close> gives the same result and the same SDK calls on
  both, in that world and in any other.
\<close>

theorem load_independent_of_load_args:
  assumes "init v table_name schema database load_args1 save_args credentials w = (Inr a1, w1)"
    and "init v table_name schema database load_args2 save_args credentials w = (Inr a2, w2)"
  shows "w1 = w2 \<and> load v a1 w1 = load v a2 w2 \<and> load v a1 w' = load v a2 w'"
proof -
  from init_fields [OF assms(1)] obtain cr where cr: "credentials = Some cr"
    and tn1: "Some (self_table_name a1) = table_name"
    and db1: "resolve ''database'' database (heap w cr) = Inr (self_database a1)"
    and sc1: "resolve ''schema'' schema (heap w cr) = Inr (self_schema a1)"
    and gs1: "get_session v cr (w\<lparr>heap := fun_upd (heap w) cr (dict_update (heap w cr)
            [(''database'', self_database a1), (''schema'', self_schema a1)])\<rparr>)
           = (Inr (self_session a1), w1)"
    by blast
  from init_fields [OF assms(2)] cr have
        tn2: "Some (self_table_name a2) = table_name"
    and db2: "resolve ''database'' database (heap w cr) = Inr (self_database a2)"
    and sc2: "resolve ''schema'' schema (heap w cr) = Inr (self_schema a2)"
    and gs2: "get_session v cr (w\<lparr>heap := fun_upd (heap w) cr (dict_update (heap w cr)
            [(''database'', self_database a2), (''schema'', self_schema a2)])\<rparr>)
           = (Inr (self_session a2), w2)"
    by auto
  from tn1 tn2 have tn: "self_table_name a1 = self_table_name a2" by (metis option.inject)
  from db1 db2 have db: "self_database a1 = self_database a2" by simp
  from sc1 sc2 have sc: "self_schema a1 = self_schema a2" by simp
  from gs1 gs2 db sc have s: "self_session a1 = self_session a2" and w: "w1 = w2" by simp_all
  from db sc tn s have l: "\<And>u. load v a1 u = load v a2 u" by (rule load_fields)
  from w l show ?thesis by simp
qed

theorem load_independent_of_load_args_witness:
  "load demo_vendor weather_adapter weather_world
     = load demo_vendor (weather_adapter\<lparr>self_load_args := [(''limit'', PyInt 10)]\<rparr>)
         weather_world"
  using load_independent_of_load_args [OF init_weather init_weather_load_args]
  by simp

subsection \<open>Save\<close>

text \<open>
  C4. \<^verbatim>\<open>_save\<close> of a constructed adapter hands \<^verbatim>\<open>save_as_table\<close> the three parts
  of the qualified name, database, schema and table name in this order (as a list: the
  source does not join them here), and the stored save arguments. A Snowpark dataframe
  is passed as it is, with no other call; other data goes through
  \<^verbatim>\<open>session.create_dataframe\<close> first, and the dataframe that call returns is the one
  written (if it raises, nothing is written). The stored save arguments are the
  caller's merged over the empty defaults: empty when none were given, and for a
  dictionary (distinct keys) the caller's items unchanged, in their order.
\<close>

theorem save_writes_qualified_name:
  assumes "init v table_name schema database load_args save_args credentials w0 = (Inr a, w1)"
  shows "save v a (Native df) w =
           (save_as_table v (calls w) df
              [self_database a, self_schema a, PyStr (self_table_name a)] (self_save_args a),
            w\<lparr>calls := calls w @ [SaveAsTable df
              [self_database a, self_schema a, PyStr (self_table_name a)]
              (self_save_args a)]\<rparr>)
       \<and> (\<forall>df'. session_create_dataframe v (calls w) (self_session a) p = Inr df' \<longrightarrow>
            save v a (Generic p) w =
              (save_as_table v (calls w @ [SessionCreateDataframe (self_session a) p]) df'
                 [self_database a, self_schema a, PyStr (self_table_name a)] (self_save_args a),
               w\<lparr>calls := calls w @ [SessionCreateDataframe (self_session a) p,
                 SaveAsTable df' [self_database a, self_schema a, PyStr (self_table_name a)]
                   (self_save_args a)]\<rparr>))
       \<and> (\<forall>e. session_create_dataframe v (calls w) (self_session a) p = Inl e \<longrightarrow>
            save v a (Generic p) w =
              (Inl e, w\<lparr>calls := calls w @ [SessionCreateDataframe (self_session a) p]\<rparr>))
       \<and> Some (self_table_name a) = table_name
       \<and> (save_args = None \<longrightarrow> self_save_args a = [])
       \<and> (\<forall>sa. save_args = Some sa \<longrightarrow> self_save_args a = dict_update [] sa)
       \<and> (\<forall>sa. save_args = Some sa \<and> distinct (map fst sa) \<longrightarrow> self_save_args a = sa)"
proof -
  have 1: "save v a (Native df) w =
           (save_as_table v (calls w) df
              [self_database a, self_schema a, PyStr (self_table_name a)] (self_save_args a),
            w\<lparr>calls := calls w @ [SaveAsTable df
              [self_database a, self_schema a, PyStr (self_table_name a)]
              (self_save_args a)]\<rparr>)"
    by (simp add: save_eq Let_def)
  have 2: "\<forall>df'. session_create_dataframe v (calls w) (self_session a) p = Inr df' \<longrightarrow>
            save v a (Generic p) w =
              (save_as_table v (calls w @ [SessionCreateDataframe (self_session a) p]) df'
                 [self_database a, self_schema a, PyStr (self_table_name a)] (self_save_args a),
               w\<lparr>calls := calls w @ [SessionCreateDataframe (self_session a) p,
                 SaveAsTable df' [self_database a, self_schema a, PyStr (self_table_name a)]
                   (self_save_args a)]\<rparr>)"
    by (simp add: save_eq Let_def)
  have 3: "\<forall>e. session_create_dataframe v (calls w) (self_session a) p = Inl e \<longrightarrow>
            save v a (Generic p) w =
              (Inl e, w\<lparr>calls := calls w @ [SessionCreateDataframe (self_session a) p]\<rparr>)"
    by (simp add: save_eq Let_def)
  from assms obtain tn cr s where tn: "table_name = Some tn"
    and a: "a = \<lparr>self_load_args = (case load_args of None \<Rightarrow> DEFAULT_LOAD_ARGS
                               | Some la \<Rightarrow> dict_update DEFAULT_LOAD_ARGS la),
          self_save_args = (case save_args of None \<Rightarrow> DEFAULT_SAVE_ARGS
                               | Some sa \<Rightarrow> dict_update DEFAULT_SAVE_ARGS sa),
          self_table_name = tn, self_database = self_database a, self_schema = self_schema a,
          self_connection_parameters = cr, self_session = s\<rparr>"
    by (rule init_Inr)
  from a have "self_table_name a = tn"
    by (metis adapter.select_convs(3))
  with tn have 4: "Some (self_table_name a) = table_name" by simp
  note sa = init_save_args [OF assms]
  from sa have 5: "save_args = None \<longrightarrow> self_save_args a = []"
    by (simp add: DEFAULT_SAVE_ARGS_def)
  from sa have 6: "\<forall>sa. save_args = Some sa \<longrightarrow> self_save_args a = dict_update [] sa"
    by (simp add: DEFAULT_SAVE_ARGS_def)
  from 6 have 7: "\<forall>sa. save_args = Some sa \<and> distinct (map fst sa) \<longrightarrow> self_save_args a = sa"
    by (simp add: dict_update_empty)
  from 1 2 3 4 5 6 7 show ?thesis by blast
qed

theorem save_writes_qualified_name_witness:
  "save demo_vendor polygons_adapter (Generic (PdDataFrame 5)) polygons_world =
     (Inr (), polygons_world\<lparr>calls := calls polygons_world @
        [SessionCreateDataframe 7 (PdDataFrame 5),
         SaveAsTable (SpDataFrame 2)
           [PyStr ''meteorology'', PyStr ''geodata'', PyStr ''geopolygons'']
           [(''mode'', PyStr ''overwrite'')]]\<rparr>)
   \<and> save demo_vendor polygons_adapter (Native (SpDataFrame 9)) polygons_world =
     (Inr (), polygons_world\<lparr>calls := calls polygons_world @
        [SaveAsTable (SpDataFrame 9)
           [PyStr ''meteorology'', PyStr ''geodata'', PyStr ''geopolygons'']
           [(''mode'', PyStr ''overwrite'')]]\<rparr>)"
  using save_writes_qualified_name [OF init_polygons, of "SpDataFrame 9" polygons_world
          "PdDataFrame 5"]
  by (simp add: demo_vendor_def polygons_adapter_def)

subsection \<open>Exists\<close>

text \<open>
  C3. The query \<^verbatim>\<open>_exists\<close> sends is the count over
  \<^verbatim>\<open>INFORMATION_SCHEMA.TABLES\<close> of the resolved database, filtered by
  \<^verbatim>\<open>TABLE_SCHEMA\<close> equal to the resolved schema and \<^verbatim>\<open>TABLE_NAME\<close> equal to the table
  name, each between single quotes, with no escaping. When that query succeeds and its
  first row begins with the count \<open>n\<close>, \<^verbatim>\<open>_exists\<close> returns true if \<open>n = 1\<close> and false
  for every other \<open>n\<close>, and the calls it has made are \<^verbatim>\<open>session.sql\<close> on that query
  and \<^verbatim>\<open>collect\<close> on its result.
\<close>

theorem exists_true_iff_count_is_one:
  assumes "session_sql v (calls w) (self_session a)
             (''SELECT COUNT('' @ ''*) FROM '' @ py_str (self_database a) @
              ''.INFORMATION_SCHEMA.TABLES WHERE TABLE_SCHEMA = '' @ [CHR 0x27] @
              py_str (self_schema a) @ [CHR 0x27] @ '' AND TABLE_NAME = '' @ [CHR 0x27] @
              self_table_name a @ [CHR 0x27]) = Inr df"
    and "collect v (calls w @ [SessionSql (self_session a)
             (''SELECT COUNT('' @ ''*) FROM '' @ py_str (self_database a) @
              ''.INFORMATION_SCHEMA.TABLES WHERE TABLE_SCHEMA = '' @ [CHR 0x27] @
              py_str (self_schema a) @ [CHR 0x27] @ '' AND TABLE_NAME = '' @ [CHR 0x27] @
              self_table_name a @ [CHR 0x27])]) df
           = Inr ((PyInt n # row) # rows)"
  shows "fst (exists v a w) = Inr (n = 1)
       \<and> calls (snd (exists v a w))
           = calls w @ [SessionSql (self_session a)
               (''SELECT COUNT('' @ ''*) FROM '' @ py_str (self_database a) @
                ''.INFORMATION_SCHEMA.TABLES WHERE TABLE_SCHEMA = '' @ [CHR 0x27] @
                py_str (self_schema a) @ [CHR 0x27] @ '' AND TABLE_NAME = '' @ [CHR 0x27] @
                self_table_name a @ [CHR 0x27]), Collect df]
       \<and> (\<forall>d s. self_database a = PyStr d \<and> self_schema a = PyStr s \<longrightarrow>
             exists_query a =
               ''SELECT COUNT('' @ ''*) FROM '' @ d @
               ''.INFORMATION_SCHEMA.TABLES WHERE TABLE_SCHEMA = '' @ [CHR 0x27] @
               s @ [CHR 0x27] @ '' AND TABLE_NAME = '' @ [CHR 0x27] @
               self_table_name a @ [CHR 0x27])"
proof -
  have q: "exists_query a =
             ''SELECT COUNT('' @ ''*) FROM '' @ py_str (self_database a) @
             ''.INFORMATION_SCHEMA.TABLES WHERE TABLE_SCHEMA = '' @ [CHR 0x27] @
             py_str (self_schema a) @ [CHR 0x27] @ '' AND TABLE_NAME = '' @ [CHR 0x27] @
             self_table_name a @ [CHR 0x27]"
    by (simp only: exists_query_def)
  from assms(1) q have s: "session_sql v (calls w) (self_session a) (exists_query a) = Inr df"
    by simp
  from assms(2) q
  have c: "collect v (calls w @ [SessionSql (self_session a) (exists_query a)]) df
             = Inr ((PyInt n # row) # rows)"
    by simp
  from s c have 1: "fst (exists v a w) = Inr (n = 1)"
    by (simp add: exists_eq Let_def)
  from s c have "calls (snd (exists v a w))
                   = calls w @ [SessionSql (self_session a) (exists_query a), Collect df]"
    by (simp add: exists_eq Let_def)
  with q have 2: "calls (snd (exists v a w))
           = calls w @ [SessionSql (self_session a)
               (''SELECT COUNT('' @ ''*) FROM '' @ py_str (self_database a) @
                ''.INFORMATION_SCHEMA.TABLES WHERE TABLE_SCHEMA = '' @ [CHR 0x27] @
                py_str (self_schema a) @ [CHR 0x27] @ '' AND TABLE_NAME = '' @ [CHR 0x27] @
                self_table_name a @ [CHR 0x27]), Collect df]"
    by simp
  have 3: "\<forall>d s. self_database a = PyStr d \<and> self_schema a = PyStr s \<longrightarrow>
             exists_query a =
               ''SELECT COUNT('' @ ''*) FROM '' @ d @
               ''.INFORMATION_SCHEMA.TABLES WHERE TABLE_SCHEMA = '' @ [CHR 0x27] @
               s @ [CHR 0x27] @ '' AND TABLE_NAME = '' @ [CHR 0x27] @
               self_table_name a @ [CHR 0x27]"
    by (simp add: exists_query_def)
  from 1 2 3 show ?thesis by blast
qed

theorem exists_true_iff_count_is_one_witness:
  "fst (exists demo_vendor polygons_adapter polygons_world) = Inr ((1::int) = 1)
   \<and> calls (snd (exists demo_vendor polygons_adapter polygons_world))
       = calls polygons_world
         @ [SessionSql 7
              (''SELECT COUNT('' @ ''*) FROM meteorology.INFORMATION_SCHEMA.TABLES ''
               @ ''WHERE TABLE_SCHEMA = '' @ [CHR 0x27] @ ''geodata'' @ [CHR 0x27]
               @ '' AND TABLE_NAME = '' @ [CHR 0x27] @ ''geopolygons'' @ [CHR 0x27]),
            Collect (SpDataFrame 3)]
   \<and> exists_query polygons_adapter
       = ''SELECT COUNT('' @ ''*) FROM meteorology.INFORMATION_SCHEMA.TABLES ''
         @ ''WHERE TABLE_SCHEMA = '' @ [CHR 0x27] @ ''geodata'' @ [CHR 0x27]
         @ '' AND TABLE_NAME = '' @ [CHR 0x27] @ ''geopolygons'' @ [CHR 0x27]"
  using exists_true_iff_count_is_one [of demo_vendor polygons_world polygons_adapter
          "SpDataFrame 3" 1 "[]" "[]"]
  by (simp add: demo_vendor_def polygons_adapter_def)

text \<open>
  C10. \<^verbatim>\<open>rows[0][0]\<close> is not guarded: when the query succeeds, \<^verbatim>\<open>_exists\<close> raises
  \<^verbatim>\<open>IndexError\<close> exactly when \<^verbatim>\<open>collect\<close> returns no row or a first row with no
  column, and returns a boolean exactly when the first row has a first column.
\<close>

theorem exists_index_error:
  assumes "session_sql v (calls w) (self_session a) (exists_query a) = Inr df"
    and "collect v (calls w @ [SessionSql (self_session a) (exists_query a)]) df = Inr rows"
  shows "(fst (exists v a w) = Inl IndexError) = (rows = [] \<or> (\<exists>rs. rows = [] # rs))
       \<and> ((\<exists>b. fst (exists v a w) = Inr b) = (\<exists>x row rs. rows = (x # row) # rs))"
  using assms by (auto simp: exists_eq Let_def split: list.splits)

theorem exists_index_error_witness:
  "fst (exists empty_vendor polygons_adapter polygons_world) = Inl IndexError"
  using exists_index_error [of empty_vendor polygons_world polygons_adapter
          "SpDataFrame 3" "[]"]
  by (simp add: empty_vendor_def demo_vendor_def)

subsection \<open>Describe and sequences of operations\<close>

text \<open>
  C7. Each of \<^verbatim>\<open>_load\<close>, \<^verbatim>\<open>_save\<close>, \<^verbatim>\<open>_exists\<close> and \<^verbatim>\<open>_describe\<close> leaves the
  adapter as it found it, whether it returns or raises. Hence no sequence of these
  calls changes the table name, the database or the schema of the adapter.
\<close>

theorem run_preserves_configuration:
  assumes "run v xs (a, w) = (rs, a', w')"
  shows "self_table_name a' = self_table_name a
       \<and> self_database a' = self_database a
       \<and> self_schema a' = self_schema a"
  using assms
proof (induction xs arbitrary: w rs)
  case Nil
  then show ?case by simp
next
  case (Cons x xs)
  obtain r a1 w1 where st: "step v x (a, w) = (r, a1, w1)" by (cases "step v x (a, w)")
  then have a1: "a1 = a" by (rule step_adapter)
  obtain rs1 a2 w2 where rn: "run v xs (a, w1) = (rs1, a2, w2)"
    by (cases "run v xs (a, w1)")
  from Cons.prems st a1 rn have "a2 = a'" and "w2 = w'" by simp_all
  with rn have "run v xs (a, w1) = (rs1, a', w')" by simp
  then show ?case by (rule Cons.IH)
qed

theorem run_preserves_configuration_witness:
  "self_table_name (fst (snd (run demo_vendor
       [Load, Save (Generic (PdDataFrame 5)), Exists, Describe]
       (polygons_adapter, polygons_world)))) = ''geopolygons''
   \<and> self_database (fst (snd (run demo_vendor
       [Load, Save (Generic (PdDataFrame 5)), Exists, Describe]
       (polygons_adapter, polygons_world)))) = PyStr ''meteorology''
   \<and> self_schema (fst (snd (run demo_vendor
       [Load, Save (Generic (PdDataFrame 5)), Exists, Describe]
       (polygons_adapter, polygons_world)))) = PyStr ''geodata''"
  using run_preserves_configuration [of demo_vendor
          "[Load, Save (Generic (PdDataFrame 5)), Exists, Describe]"
          polygons_adapter polygons_world
          "fst (run demo_vendor [Load, Save (Generic (PdDataFrame 5)), Exists, Describe]
                 (polygons_adapter, polygons_world))"
          "fst (snd (run demo_vendor [Load, Save (Generic (PdDataFrame 5)), Exists, Describe]
                 (polygons_adapter, polygons_world)))"
          "snd (snd (run demo_vendor [Load, Save (Generic (PdDataFrame 5)), Exists, Describe]
                 (polygons_adapter, polygons_world)))"]
  by (simp add: polygons_adapter_def)

text \<open>
  C9. \<^verbatim>\<open>_describe\<close> returns the dictionary of \<open>table_name\<close>, \<open>database\<close> and
  \<open>schema\<close> with the resolved values, and any number of calls in a row return that
  same dictionary and leave the adapter and the world as they were.
\<close>

theorem describe_idempotent:
  "describe a = [(''table_name'', PyStr (self_table_name a)),
                 (''database'', self_database a), (''schema'', self_schema a)]
   \<and> run v (replicate n Describe) (a, w) = (replicate n (Description (describe a)), a, w)"
proof
  show "describe a = [(''table_name'', PyStr (self_table_name a)),
                      (''database'', self_database a), (''schema'', self_schema a)]"
    by (simp add: describe_eq)
  show "run v (replicate n Describe) (a, w) = (replicate n (Description (describe a)), a, w)"
    by (induction n) (simp_all add: describe_def method_describe_def)
qed

theorem describe_idempotent_witness:
  "describe polygons_adapter =
     [(''table_name'', PyStr ''geopolygons''), (''database'', PyStr ''meteorology''),
      (''schema'', PyStr ''geodata'')]
   \<and> run demo_vendor [Describe, Describe] (polygons_adapter, polygons_world)
     = ([Description (describe polygons_adapter), Description (describe polygons_adapter)],
        polygons_adapter, polygons_world)"
  using describe_idempotent [of polygons_adapter demo_vendor "Suc (Suc 0)" polygons_world]
  by (simp add: polygons_adapter_def)

end
